theory Spec2Isabelle
  imports Main "HOL-Library.Word"
begin

section \<open>JSON values and raw messages\<close>

text \<open>
  The signaling loop decodes every text message with \<^verbatim>\<open>encoding/json\<close> into a
  \<^verbatim>\<open>map[string]json.RawMessage\<close>. A text message is represented by the JSON value
  it spells (\<open>Text v\<close>), or by \<open>NotJSON\<close> when its bytes are no JSON text at all.
  Numbers are restricted to integers.

  A \<^verbatim>\<open>json.RawMessage\<close> holds the encoded text of a value, exactly as it stood in
  the message: for a JSON string that text includes the two double quotes. A raw
  message is represented by the value it spells, and \<open>raw\<close> gives its text in the
  compact spelling (another spelling of the same value differs in white space and
  escapes only, and begins with the same character).
\<close>

datatype json =
    JNull
  | JBool bool
  | JNumber int
  | JString string
  | JArray "json list"
  | JObject "(string \<times> json) list"

definition digit :: "nat \<Rightarrow> char" where
  "digit d = ''0123456789'' ! d"

fun digits :: "nat \<Rightarrow> string" where
  "digits n = (if n < 10 then [digit n] else digits (n div 10) @ [digit (n mod 10)])"

declare digits.simps [simp del]

fun escape :: "string \<Rightarrow> string" where
  "escape [] = []"
| "escape (c # cs) =
     (if c = CHR 0x22 \<or> c = CHR 0x5C then CHR 0x5C # c # escape cs else c # escape cs)"

definition quoted :: "string \<Rightarrow> string" where
  "quoted s = CHR 0x22 # escape s @ [CHR 0x22]"

fun commas :: "string list \<Rightarrow> string" where
  "commas [] = []"
| "commas [x] = x"
| "commas (x # y # ys) = x @ '','' @ commas (y # ys)"

fun raw :: "json \<Rightarrow> string" where
  "raw JNull = ''null''"
| "raw (JBool b) = (if b then ''true'' else ''false'')"
| "raw (JNumber i) = (if i < 0 then CHR ''-'' # digits (nat (- i)) else digits (nat i))"
| "raw (JString s) = quoted s"
| "raw (JArray vs) = ''['' @ commas (map raw vs) @ '']''"
| "raw (JObject kvs) =
     ''{'' @ commas (map (\<lambda>(k, v). quoted k @ '':'' @ raw v) kvs) @ ''}''"

datatype message = Text json | NotJSON

text \<open>
  \<^verbatim>\<open>json.Unmarshal(msg, &msgMap)\<close> with \<^verbatim>\<open>msgMap map[string]json.RawMessage\<close>:
  a syntax error for a message that is no JSON text, a type error for a value that
  is neither an object nor \<^verbatim>\<open>null\<close>; \<^verbatim>\<open>null\<close> leaves the map nil, and in an
  object a later duplicate of a key replaces the earlier one.
\<close>

definition unmarshalMap :: "message \<Rightarrow> (string \<rightharpoonup> json) option" where
  "unmarshalMap msg =
     (case msg of
        NotJSON \<Rightarrow> None
      | Text JNull \<Rightarrow> Some Map.empty
      | Text (JObject kvs) \<Rightarrow> Some (map_of (rev kvs))
      | Text _ \<Rightarrow> None)"

text \<open>
  \<^verbatim>\<open>string(msgMap[key])\<close>: the conversion of the raw message to a string, which is
  its encoded text; a missing key gives the nil raw message and so the empty string.
\<close>

definition rawString :: "json option \<Rightarrow> string" where
  "rawString r = (case r of None \<Rightarrow> [] | Some v \<Rightarrow> raw v)"


section \<open>The signaling channel handler\<close>

record SessionDescription =
  sdType :: string
  sdSDP :: string

record ICECandidateInit =
  candidate :: string
  sdpMid :: "string option"
  sdpMLineIndex :: "nat option"

text \<open>The calls a session makes on its media endpoint, and the frames it writes.\<close>

datatype pc_call =
    SetRemoteDescription SessionDescription
  | CreateAnswer
  | SetLocalDescription SessionDescription
  | AddICECandidate ICECandidateInit

datatype ws_frame =
    AnswerFrame SessionDescription
  | ErrorFrame string

record session =
  calls :: "pc_call list"
  sent :: "ws_frame list"

text \<open>
  The external collaborators of the loop, taken as parameters:
  \<^item> \<open>decodeSDP r\<close> and \<open>decodeCandidate r\<close> are \<^verbatim>\<open>json.Unmarshal(r, &x)\<close> for a
    \<^verbatim>\<open>webrtc.SessionDescription\<close> and a \<^verbatim>\<open>webrtc.ICECandidateInit\<close>: whether the
    error is nil, and the value left in \<open>x\<close> (\<open>r = None\<close> is the nil raw message of a
    missing key);
  \<^item> \<open>remoteOk cs d\<close> tells whether \<^verbatim>\<open>pc.SetRemoteDescription(d)\<close> returns a nil
    error on an endpoint that has seen the calls \<open>cs\<close>;
  \<^item> \<open>makeAnswer cs\<close> is \<^verbatim>\<open>pc.CreateAnswer(nil)\<close>: whether the error is nil, and
    the description returned.
  The results of \<^verbatim>\<open>SetLocalDescription\<close> and \<^verbatim>\<open>AddICECandidate\<close> are not used by
  either loop beyond logging.
\<close>

record library =
  decodeSDP :: "json option \<Rightarrow> bool \<times> SessionDescription"
  decodeCandidate :: "json option \<Rightarrow> bool \<times> ICECandidateInit"
  remoteOk :: "pc_call list \<Rightarrow> SessionDescription \<Rightarrow> bool"
  makeAnswer :: "pc_call list \<Rightarrow> bool \<times> SessionDescription"

definition call :: "pc_call \<Rightarrow> session \<Rightarrow> session" where
  "call c st = st\<lparr>calls := calls st @ [c]\<rparr>"

definition writeJSON :: "ws_frame \<Rightarrow> session \<Rightarrow> session" where
  "writeJSON f st = st\<lparr>sent := sent st @ [f]\<rparr>"

subsection \<open>\<^verbatim>\<open>main.go\<close>\<close>

text \<open>
  The \<^verbatim>\<open>switch msgType\<close> of \<^verbatim>\<open>handleSignaling\<close> (lines 209 to 248); every
  \<^verbatim>\<open>continue\<close> leaves the session as it is at that point.
\<close>

definition switchMsgType ::
  "library \<Rightarrow> bool \<Rightarrow> string \<Rightarrow> (string \<rightharpoonup> json) \<Rightarrow> session \<Rightarrow> session" where
  "switchMsgType lib isBroadcaster msgType msgMap st =
     (if msgType = ''offer'' then
        (if \<not> isBroadcaster then st
         else case decodeSDP lib (msgMap ''sdp'') of
           (False, _) \<Rightarrow> st
         | (True, offer) \<Rightarrow>
             let st1 = call (SetRemoteDescription offer) st in
             if \<not> remoteOk lib (calls st) offer then st1
             else
               let st2 = call CreateAnswer st1 in
               (case makeAnswer lib (calls st1) of
                  (False, _) \<Rightarrow> st2
                | (True, answer) \<Rightarrow>
                    writeJSON (AnswerFrame answer) (call (SetLocalDescription answer) st2)))
      else if msgType = ''answer'' then
        (if isBroadcaster then st
         else case decodeSDP lib (msgMap ''sdp'') of
           (False, _) \<Rightarrow> st
         | (True, answer) \<Rightarrow> call (SetRemoteDescription answer) st)
      else if msgType = ''candidate'' then
        (case decodeCandidate lib (msgMap ''candidate'') of
           (False, _) \<Rightarrow> st
         | (True, c) \<Rightarrow> call (AddICECandidate c) st)
      else st)"

text \<open>One round of the loop on a message that was read (lines 202 to 248).\<close>

definition handleMessage :: "library \<Rightarrow> bool \<Rightarrow> message \<Rightarrow> session \<Rightarrow> session" where
  "handleMessage lib isBroadcaster msg st =
     (case unmarshalMap msg of
        None \<Rightarrow> st
      | Some msgMap \<Rightarrow>
          switchMsgType lib isBroadcaster (rawString (msgMap ''type'')) msgMap st)"

text \<open>
  The loop of \<^verbatim>\<open>handleSignaling\<close> (lines 195 to 249) on the messages that
  \<^verbatim>\<open>ws.ReadMessage\<close> delivers before it returns an error; the error ends the loop.
  The callback registered with \<^verbatim>\<open>pc.OnICECandidate\<close> runs on the endpoint's own
  events and writes candidate frames only; it is not part of the loop.
\<close>

fun handleSignaling :: "library \<Rightarrow> bool \<Rightarrow> message list \<Rightarrow> session \<Rightarrow> session" where
  "handleSignaling lib isBroadcaster [] st = st"
| "handleSignaling lib isBroadcaster (msg # msgs) st =
     handleSignaling lib isBroadcaster msgs (handleMessage lib isBroadcaster msg st)"

text \<open>
  The type tag a client wrote in a decoded frame: the content of the string under
  the key \<^verbatim>\<open>type\<close> (empty when there is none).
\<close>

definition frameType :: "(string \<rightharpoonup> json) \<Rightarrow> string" where
  "frameType m = (case m ''type'' of Some (JString t) \<Rightarrow> t | _ \<Rightarrow> [])"

text \<open>
  A frame that fails to parse as the expected shape: \<^verbatim>\<open>json.Unmarshal\<close> of the
  message fails, or the payload field of its type (\<^verbatim>\<open>sdp\<close> for an offer or an
  answer, \<^verbatim>\<open>candidate\<close> for a candidate) does not unmarshal as the type the loop
  expects there.
\<close>

definition malformed :: "library \<Rightarrow> message \<Rightarrow> bool" where
  "malformed lib msg =
     (case unmarshalMap msg of
        None \<Rightarrow> True
      | Some m \<Rightarrow>
          ((frameType m = ''offer'' \<or> frameType m = ''answer'') \<and>
             fst (decodeSDP lib (m ''sdp'')) = False) \<or>
          (frameType m = ''candidate'' \<and> fst (decodeCandidate lib (m ''candidate'')) = False))"

text \<open>
  A library for the examples: a session description decodes from an object with the
  strings \<^verbatim>\<open>type\<close> and \<^verbatim>\<open>sdp\<close>, a candidate from an object with the string
  \<^verbatim>\<open>candidate\<close>; the endpoint accepts every description and answers.
\<close>

definition sampleLibrary :: library where
  "sampleLibrary =
     \<lparr>decodeSDP = (\<lambda>r. case r of
          Some (JObject kvs) \<Rightarrow>
            (case (map_of kvs ''type'', map_of kvs ''sdp'') of
               (Some (JString t), Some (JString d)) \<Rightarrow> (True, \<lparr>sdType = t, sdSDP = d\<rparr>)
             | _ \<Rightarrow> (False, \<lparr>sdType = [], sdSDP = []\<rparr>))
        | _ \<Rightarrow> (False, \<lparr>sdType = [], sdSDP = []\<rparr>)),
      decodeCandidate = (\<lambda>r. case r of
          Some (JObject kvs) \<Rightarrow>
            (case map_of kvs ''candidate'' of
               Some (JString c) \<Rightarrow> (True, \<lparr>candidate = c, sdpMid = None, sdpMLineIndex = None\<rparr>)
             | _ \<Rightarrow> (False, \<lparr>candidate = [], sdpMid = None, sdpMLineIndex = None\<rparr>))
        | _ \<Rightarrow> (False, \<lparr>candidate = [], sdpMid = None, sdpMLineIndex = None\<rparr>)),
      remoteOk = (\<lambda>cs d. True),
      makeAnswer = (\<lambda>cs. (True, \<lparr>sdType = ''answer'', sdSDP = ''v=0''\<rparr>))\<rparr>"

subsection \<open>The second copy of the server (\<^verbatim>\<open>src/unnamed/part_000\<close>)\<close>

text \<open>
  The repository holds a shorter copy of the same server. Its functions carry the
  names of \<^verbatim>\<open>main.go\<close>; here they have the suffix \<open>_min\<close>. Its loop drops every
  error: a failed \<^verbatim>\<open>json.Unmarshal\<close> leaves the map nil, and the values left in
  the variables are used as they are. It does not look at the role.
\<close>

definition switchMsgType_min ::
  "library \<Rightarrow> string \<Rightarrow> (string \<rightharpoonup> json) \<Rightarrow> session \<Rightarrow> session" where
  "switchMsgType_min lib t m st =
     (if t = ''offer'' \<or> t = ''answer'' then
        let sdp = snd (decodeSDP lib (m ''sdp'')) in
        if t = ''offer'' then
          let st1 = call (SetRemoteDescription sdp) st;
              ans = snd (makeAnswer lib (calls st1));
              st2 = call CreateAnswer st1
          in writeJSON (AnswerFrame ans) (call (SetLocalDescription ans) st2)
        else call (SetRemoteDescription sdp) st
      else st)"

definition handleMessage_min :: "library \<Rightarrow> message \<Rightarrow> session \<Rightarrow> session" where
  "handleMessage_min lib msg st =
     (let m = (case unmarshalMap msg of None \<Rightarrow> Map.empty | Some msgMap \<Rightarrow> msgMap)
      in switchMsgType_min lib (rawString (m ''type'')) m st)"

fun handleSignaling_min :: "library \<Rightarrow> bool \<Rightarrow> message list \<Rightarrow> session \<Rightarrow> session" where
  "handleSignaling_min lib broadcaster [] st = st"
| "handleSignaling_min lib broadcaster (msg # msgs) st =
     handleSignaling_min lib broadcaster msgs (handleMessage_min lib msg st)"


section \<open>The room registry\<close>

text \<open>
  \<^verbatim>\<open>randomHex(n)\<close> reads \<open>n\<close> bytes from \<^verbatim>\<open>crypto/rand\<close> into a zeroed buffer
  and encodes them in hexadecimal. The bytes the random source delivers are an
  input (\<open>rnd\<close>); what it does not fill stays zero, as the error of \<^verbatim>\<open>rand.Read\<close>
  is dropped.
\<close>

definition fill :: "nat \<Rightarrow> 8 word list \<Rightarrow> 8 word list" where
  "fill n rnd = take n rnd @ replicate (n - length rnd) 0"

definition hexdigit :: "nat \<Rightarrow> char" where
  "hexdigit d = ''0123456789abcdef'' ! d"

definition encodeByte :: "8 word \<Rightarrow> string" where
  "encodeByte b = [hexdigit (unat b div 16), hexdigit (unat b mod 16)]"

definition EncodeToString :: "8 word list \<Rightarrow> string" where
  "EncodeToString bs = concat (map encodeByte bs)"

definition randomHex :: "nat \<Rightarrow> 8 word list \<Rightarrow> string" where
  "randomHex n rnd = EncodeToString (fill n rnd)"

text \<open>In the second copy the encoded string is cut to its first \<open>n\<close> characters.\<close>

definition randomHex_min :: "nat \<Rightarrow> 8 word list \<Rightarrow> string" where
  "randomHex_min n rnd = take n (EncodeToString (fill n rnd))"

text \<open>
  A \<^verbatim>\<open>*webrtc.PeerConnection\<close> and a \<^verbatim>\<open>*Room\<close> are references, numbered in the
  order of their construction. \<^verbatim>\<open>Listeners map[*webrtc.PeerConnection]bool\<close> only
  ever stores \<^verbatim>\<open>true\<close> and is read by its keys: a set.
\<close>

record Room =
  Name :: string
  Broadcaster :: "nat option"
  Listeners :: "nat set"

text \<open>
  The state of the process: the registry \<^verbatim>\<open>rooms map[string]*Room\<close>, the Room
  objects by reference, the endpoints constructed and those closed, the handlers
  registered on endpoints (each closure with the room it captured), and the
  forwarding tasks started, one per pair of a track and a listener's endpoint.
\<close>

record server =
  rooms :: "string \<rightharpoonup> nat"
  heap :: "nat \<Rightarrow> Room"
  allocated :: nat
  peers :: nat
  closedPeers :: "nat set"
  onTrackHandler :: "nat \<rightharpoonup> nat"
  onStateHandler :: "nat \<rightharpoonup> nat"
  forwards :: "(nat \<times> nat) set"

definition newRoom :: "string \<Rightarrow> Room" where
  "newRoom roomID = \<lparr>Name = roomID, Broadcaster = None, Listeners = {}\<rparr>"

definition initial :: server where
  "initial = \<lparr>rooms = Map.empty, heap = (\<lambda>_. newRoom []), allocated = 0, peers = 0,
     closedPeers = {}, onTrackHandler = Map.empty, onStateHandler = Map.empty,
     forwards = {}\<rparr>"

record create_response =
  respRoom :: string
  respUrl :: string

definition insertRoom :: "string \<Rightarrow> server \<Rightarrow> server" where
  "insertRoom roomID s =
     s\<lparr>rooms := (rooms s)(roomID \<mapsto> allocated s),
       heap := (heap s)(allocated s := newRoom roomID),
       allocated := Suc (allocated s)\<rparr>"

definition createRoom :: "8 word list \<Rightarrow> server \<Rightarrow> create_response \<times> server" where
  "createRoom rnd s =
     (let roomID = randomHex 6 rnd
      in (\<lparr>respRoom = roomID, respUrl = ''https://your-app.fly.dev/r/'' @ roomID\<rparr>,
          insertRoom roomID s))"

definition createRoom_min :: "8 word list \<Rightarrow> server \<Rightarrow> create_response \<times> server" where
  "createRoom_min rnd s =
     (let room = randomHex_min 5 rnd
      in (\<lparr>respRoom = room, respUrl = ''https://your-app.fly.dev/r/'' @ room\<rparr>,
          insertRoom room s))"


section \<open>Joining a room\<close>

record request =
  urlPath :: string
  queryRole :: string

text \<open>
  What the collaborators of one \<^verbatim>\<open>joinRoom\<close> call answer: whether
  \<^verbatim>\<open>upgrader.Upgrade\<close>, \<^verbatim>\<open>webrtc.NewPeerConnection\<close> and
  \<^verbatim>\<open>pc.AddTransceiverFromKind\<close> return a nil error.
\<close>

record join_env =
  upgradeOk :: bool
  peerOk :: bool
  transceiverOk :: bool

datatype PeerConnectionState =
  StateNew | StateConnecting | StateConnected | StateDisconnected | StateFailed | StateClosed

text \<open>
  How the part of \<^verbatim>\<open>joinRoom\<close> before \<^verbatim>\<open>handleSignaling\<close> ends: a panic of the
  slice expression, \<^verbatim>\<open>http.Error\<close> with its status and text (no upgrade), a failed
  upgrade, a return after the upgrade with the frames written, or the call of
  \<^verbatim>\<open>handleSignaling(ws, pc, room, isBroadcaster)\<close>.
\<close>

datatype join_result =
    Panicked
  | HttpError nat string
  | UpgradeFailed
  | Returned "ws_frame list"
  | Signaling nat nat bool

definition broadcasterSet :: "nat \<Rightarrow> server \<Rightarrow> bool" where
  "broadcasterSet room s = (Broadcaster (heap s room) \<noteq> None)"

definition setBroadcaster :: "nat \<Rightarrow> nat \<Rightarrow> server \<Rightarrow> server" where
  "setBroadcaster room pc s =
     s\<lparr>heap := (heap s)(room := (heap s room)\<lparr>Broadcaster := Some pc\<rparr>)\<rparr>"

definition addListener :: "nat \<Rightarrow> nat \<Rightarrow> server \<Rightarrow> server" where
  "addListener room pc s =
     s\<lparr>heap := (heap s)(room := (heap s room)\<lparr>Listeners := insert pc (Listeners (heap s room))\<rparr>)\<rparr>"

definition deleteListener :: "nat \<Rightarrow> nat \<Rightarrow> server \<Rightarrow> server" where
  "deleteListener room pc s =
     s\<lparr>heap := (heap s)(room := (heap s room)\<lparr>Listeners := Listeners (heap s room) - {pc}\<rparr>)\<rparr>"

text \<open>The listener's \<^verbatim>\<open>OnConnectionStateChange\<close> callback (lines 138 to 144).\<close>

definition onConnectionStateChange ::
  "PeerConnectionState \<Rightarrow> nat \<Rightarrow> nat \<Rightarrow> server \<Rightarrow> server" where
  "onConnectionStateChange st room pc s =
     (if st = StateClosed \<or> st = StateFailed then deleteListener room pc s else s)"

text \<open>
  An endpoint reports a change of its connection state to the handler registered
  on it, if any. \<^verbatim>\<open>pc.Close()\<close> closes the endpoint, which reports \<open>StateClosed\<close>.
\<close>

definition stateChange :: "nat \<Rightarrow> PeerConnectionState \<Rightarrow> server \<Rightarrow> server" where
  "stateChange pc st s =
     (case onStateHandler s pc of
        None \<Rightarrow> s
      | Some room \<Rightarrow> onConnectionStateChange st room pc s)"

definition pcClose :: "nat \<Rightarrow> server \<Rightarrow> server" where
  "pcClose pc s = stateChange pc StateClosed (s\<lparr>closedPeers := insert pc (closedPeers s)\<rparr>)"

text \<open>
  \<^verbatim>\<open>joinRoom\<close> up to its call of \<^verbatim>\<open>handleSignaling\<close> (lines 53 to 147). The
  deferred \<^verbatim>\<open>pc.Close()\<close> runs on every return after the endpoint was built.
\<close>

definition joinRoom_begin :: "request \<Rightarrow> join_env \<Rightarrow> server \<Rightarrow> join_result \<times> server" where
  "joinRoom_begin r e s =
     (if length (urlPath r) < length ''/join/'' then (Panicked, s)
      else case rooms s (drop (length ''/join/'') (urlPath r)) of
        None \<Rightarrow> (HttpError 404 ''Room not found'', s)
      | Some room \<Rightarrow>
          if \<not> upgradeOk e then (UpgradeFailed, s)
          else if \<not> peerOk e then (Returned [], s)
          else
            let pc = peers s; s1 = s\<lparr>peers := Suc (peers s)\<rparr> in
            if queryRole r = ''broadcaster'' then
              (if broadcasterSet room s1
               then (Returned [ErrorFrame ''Room already has a broadcaster''], pcClose pc s1)
               else if \<not> transceiverOk e then (Returned [], pcClose pc s1)
               else (Signaling pc room True,
                     (setBroadcaster room pc s1)\<lparr>onTrackHandler := (onTrackHandler s1)(pc \<mapsto> room)\<rparr>))
            else
              (if \<not> transceiverOk e then (Returned [], pcClose pc s1)
               else (Signaling pc room False,
                     (addListener room pc s1)\<lparr>onStateHandler := (onStateHandler s1)(pc \<mapsto> room)\<rparr>)))"

text \<open>The deferred calls that run when \<^verbatim>\<open>joinRoom\<close> returns from the loop.\<close>

definition joinRoom_return :: "nat \<Rightarrow> server \<Rightarrow> server" where
  "joinRoom_return pc s = pcClose pc s"

text \<open>
  A whole \<^verbatim>\<open>joinRoom\<close> call, with the messages its transport delivers before the
  read fails: what it wrote to the transport, and the state it leaves.
\<close>

definition joinRoom ::
  "library \<Rightarrow> request \<Rightarrow> join_env \<Rightarrow> message list \<Rightarrow> server \<Rightarrow> join_result \<times> server" where
  "joinRoom lib r e msgs s =
     (case joinRoom_begin r e s of
        (Signaling pc room isBroadcaster, s1) \<Rightarrow>
          (Returned (sent (handleSignaling lib isBroadcaster msgs \<lparr>calls = [], sent = []\<rparr>)),
           joinRoom_return pc s1)
      | other \<Rightarrow> other)"

subsection \<open>Broadcaster joins, statement by statement\<close>

text \<open>
  Each request runs \<^verbatim>\<open>joinRoom\<close> in a goroutine of its own. The test of
  \<^verbatim>\<open>room.Broadcaster\<close> (line 88 of \<^verbatim>\<open>main.go\<close>, line 61 of the second copy) is
  made without the room's lock; the assignment (lines 100 to 102, lines 67 to 69 of
  the second copy) is a later statement, made under the lock. Between the two,
  \<^verbatim>\<open>main.go\<close> calls \<^verbatim>\<open>AddTransceiverFromKind\<close>, which touches the caller's own
  endpoint only; the second copy has no such call, which is \<open>addOk = True\<close>. An
  attempt is at one of these statements, in the loop, or it has returned (refused
  with the error frame, or failed).
\<close>

datatype join_at = AtCheck | AtTransceiver | AtAssign | InSignaling | Refused | Failed

record attempt =
  endpoint :: nat
  target :: nat
  addOk :: bool
  at :: join_at

definition attempt_step :: "attempt \<Rightarrow> server \<Rightarrow> attempt \<times> server" where
  "attempt_step a s =
     (case at a of
        AtCheck \<Rightarrow>
          if broadcasterSet (target a) s then (a\<lparr>at := Refused\<rparr>, pcClose (endpoint a) s)
          else (a\<lparr>at := AtTransceiver\<rparr>, s)
      | AtTransceiver \<Rightarrow>
          if \<not> addOk a then (a\<lparr>at := Failed\<rparr>, pcClose (endpoint a) s)
          else (a\<lparr>at := AtAssign\<rparr>, s)
      | AtAssign \<Rightarrow>
          (a\<lparr>at := InSignaling\<rparr>,
           (setBroadcaster (target a) (endpoint a) s)
             \<lparr>onTrackHandler := (onTrackHandler s)(endpoint a \<mapsto> target a)\<rparr>)
      | _ \<Rightarrow> (a, s))"

text \<open>A schedule names, step by step, the attempt that runs its next statement.\<close>

fun interleave :: "nat list \<Rightarrow> attempt list \<Rightarrow> server \<Rightarrow> attempt list \<times> server" where
  "interleave [] as s = (as, s)"
| "interleave (i # sched) as s =
     (if i < length as
      then (case attempt_step (as ! i) s of (a, s1) \<Rightarrow> interleave sched (as[i := a]) s1)
      else interleave sched as s)"


section \<open>Track fan-out and forwarding\<close>

text \<open>
  The broadcaster's \<^verbatim>\<open>OnTrack\<close> callback (lines 105 to 122): one
  \<^verbatim>\<open>go forwardTrack(track, listener)\<close> for every key of \<^verbatim>\<open>room.Listeners\<close> at
  that moment. Its own read loop after that changes nothing in the process state.
\<close>

definition onTrack :: "nat \<Rightarrow> nat \<Rightarrow> server \<Rightarrow> server" where
  "onTrack track room s =
     s\<lparr>forwards := forwards s \<union> (\<lambda>listener. (track, listener)) ` Listeners (heap s room)\<rparr>"

text \<open>
  The events of the process: a \<^verbatim>\<open>/create\<close> request with the bytes its random
  source delivers, a \<^verbatim>\<open>/join/\<close> request up to its loop, the return of a joined
  session from its loop, an inbound track on an endpoint, a connection state
  reported by an endpoint.
\<close>

datatype event =
    Create "8 word list"
  | JoinBegin request join_env
  | JoinReturn nat
  | TrackBegins nat nat
  | StateChanges nat PeerConnectionState

fun step :: "event \<Rightarrow> server \<Rightarrow> server" where
  "step (Create rnd) s = snd (createRoom rnd s)"
| "step (JoinBegin r e) s = snd (joinRoom_begin r e s)"
| "step (JoinReturn pc) s = joinRoom_return pc s"
| "step (TrackBegins pc track) s =
     (case onTrackHandler s pc of None \<Rightarrow> s | Some room \<Rightarrow> onTrack track room s)"
| "step (StateChanges pc st) s = stateChange pc st s"

definition run :: "event list \<Rightarrow> server \<Rightarrow> server" where
  "run evs s = fold step evs s"

text \<open>
  The identifiers that the \<^verbatim>\<open>/create\<close> requests of a history returned, in the
  order of the requests.
\<close>

fun returned :: "event list \<Rightarrow> string list" where
  "returned [] = []"
| "returned (Create rnd # evs) = respRoom (fst (createRoom rnd initial)) # returned evs"
| "returned (_ # evs) = returned evs"

text \<open>
  The registry as the process keeps it: every reference it holds is to a Room
  that was allocated, and no Room is registered under two identifiers.
\<close>

definition registry_ok :: "server \<Rightarrow> bool" where
  "registry_ok s =
     ((\<forall>k p. rooms s k = Some p \<longrightarrow> p < allocated s) \<and>
      (\<forall>k k' p. rooms s k = Some p \<and> rooms s k' = Some p \<longrightarrow> k = k'))"

text \<open>
  \<^verbatim>\<open>forwardTrack\<close> (lines 151 to 177). One successful \<^verbatim>\<open>remoteTrack.ReadRTP()\<close>
  gives the count \<open>n\<close> it returns, and the payload and duration the track then
  reports. \<^verbatim>\<open>copy(rtpBuf, p)\<close> overwrites the front of the 1400-byte buffer with as
  much of \<open>p\<close> as fits; \<^verbatim>\<open>rtpBuf[:n]\<close> panics unless \<open>0 \<le> n \<le> 1400\<close>. The sample
  is taken as \<^verbatim>\<open>WriteSample\<close> receives it; its error is dropped.
\<close>

record rtp_read =
  count :: int
  payload :: "8 word list"
  duration :: int

record Sample =
  Data :: "8 word list"
  Duration :: int

datatype forward_end = ReadFailed | SetupFailed | SlicePanic

definition copy :: "8 word list \<Rightarrow> 8 word list \<Rightarrow> 8 word list" where
  "copy dst src = take (length dst) src @ drop (length src) dst"

fun forwardLoop ::
  "rtp_read list \<Rightarrow> 8 word list \<Rightarrow> Sample list \<Rightarrow> forward_end \<times> Sample list" where
  "forwardLoop [] rtpBuf out = (ReadFailed, out)"
| "forwardLoop (f # fs) rtpBuf out =
     (let buf = copy rtpBuf (payload f) in
      if count f < 0 \<or> int (length buf) < count f then (SlicePanic, out)
      else forwardLoop fs buf
             (out @ [\<lparr>Data = take (nat (count f)) buf, Duration = duration f\<rparr>]))"

definition forwardTrack :: "bool \<Rightarrow> bool \<Rightarrow> rtp_read list \<Rightarrow> forward_end \<times> Sample list" where
  "forwardTrack newTrackOk addTrackOk reads =
     (if \<not> newTrackOk then (SetupFailed, [])
      else if \<not> addTrackOk then (SetupFailed, [])
      else forwardLoop reads (replicate 1400 0) [])"


section \<open>The type tag is compared in its raw spelling\<close>

lemma digit_in: "d < 10 \<Longrightarrow> digit d \<in> set ''0123456789''"
  unfolding digit_def by (rule nth_mem) simp

lemma digits_head: "digits n \<noteq> [] \<and> hd (digits n) \<in> set ''0123456789''"
proof (induction n rule: digits.induct)
  case (1 n)
  show ?case
  proof (cases "n < 10")
    case True
    then show ?thesis using digit_in [of n] by (simp add: digits.simps [of n])
  next
    case False
    then show ?thesis using "1" by (simp add: digits.simps [of n])
  qed
qed

text \<open>The text of a JSON value begins with one of seventeen characters.\<close>

lemma raw_head: "raw v \<noteq> [] \<and> hd (raw v) \<in> set (CHR 0x22 # ''-0123456789[{tfn'')"
proof (cases v)
  case (JNumber i)
  then show ?thesis using digits_head [of "nat i"] digits_head [of "nat (- i)"] by auto
qed (simp_all add: quoted_def)

lemma raw_not_tag: "raw v \<noteq> ''offer'' \<and> raw v \<noteq> ''answer'' \<and> raw v \<noteq> ''candidate''"
  using raw_head [of v] by auto

lemma rawString_not_tag:
  "rawString r \<noteq> ''offer'' \<and> rawString r \<noteq> ''answer'' \<and> rawString r \<noteq> ''candidate''"
  using raw_not_tag by (cases r) (simp_all add: rawString_def)

text \<open>
  So no case of either switch is ever taken: \<^verbatim>\<open>string(msgMap["type"])\<close> of a frame
  \<^verbatim>\<open>{"type":"offer", ...}\<close> is the seven characters \<^verbatim>\<open>"offer"\<close>, quotes included.
\<close>

lemma rawString_offer: "rawString (Some (JString ''offer'')) = CHR 0x22 # ''offer'' @ [CHR 0x22]"
  by (simp add: rawString_def quoted_def)

lemma handleMessage_id: "handleMessage lib isBroadcaster msg st = st"
  using rawString_not_tag
  by (simp add: handleMessage_def switchMsgType_def split: option.splits)

lemma handleMessage_min_id: "handleMessage_min lib msg st = st"
  using rawString_not_tag
  by (simp add: handleMessage_min_def switchMsgType_min_def split: option.splits)

lemma handleSignaling_id: "handleSignaling lib isBroadcaster msgs st = st"
  by (induction msgs) (simp_all add: handleMessage_id)

lemma handleSignaling_min_id: "handleSignaling_min lib broadcaster msgs st = st"
  by (induction msgs) (simp_all add: handleMessage_min_id)

subsection \<open>What the switches do when given the tag itself\<close>

text \<open>
  Had the tag been unquoted, the switch of \<^verbatim>\<open>main.go\<close> would run the offer
  exchange for a publisher, skip the frames of the other role, and skip a payload
  that does not decode; the switch of the second copy has neither check.
\<close>

lemma switch_offer_publisher:
  assumes "decodeSDP lib (m ''sdp'') = (True, offer)" and "remoteOk lib (calls st) offer"
    and "makeAnswer lib (calls st @ [SetRemoteDescription offer]) = (True, answer)"
  shows "switchMsgType lib True ''offer'' m st =
    \<lparr>calls = calls st @ [SetRemoteDescription offer, CreateAnswer, SetLocalDescription answer],
     sent = sent st @ [AnswerFrame answer]\<rparr>"
  using assms by (simp add: switchMsgType_def call_def writeJSON_def)

lemma switch_offer_remote_fails:
  assumes "decodeSDP lib (m ''sdp'') = (True, offer)" and "\<not> remoteOk lib (calls st) offer"
  shows "sent (switchMsgType lib True ''offer'' m st) = sent st"
  using assms by (simp add: switchMsgType_def call_def)

lemma switch_role_guard:
  "switchMsgType lib False ''offer'' m st = st"
  "switchMsgType lib True ''answer'' m st = st"
  by (simp_all add: switchMsgType_def)

lemma switch_payload_guard:
  "fst (decodeSDP lib (m ''sdp'')) = False \<Longrightarrow> switchMsgType lib isBroadcaster ''offer'' m st = st"
  "fst (decodeSDP lib (m ''sdp'')) = False \<Longrightarrow> switchMsgType lib isBroadcaster ''answer'' m st = st"
  "fst (decodeCandidate lib (m ''candidate'')) = False \<Longrightarrow>
     switchMsgType lib isBroadcaster ''candidate'' m st = st"
  by (auto simp: switchMsgType_def split: prod.splits)

lemma switch_min_unguarded:
  "sent (switchMsgType_min lib ''offer'' m st) =
     sent st @ [AnswerFrame (snd (makeAnswer lib
       (calls st @ [SetRemoteDescription (snd (decodeSDP lib (m ''sdp'')))])))]"
  by (simp add: switchMsgType_min_def call_def writeJSON_def Let_def)

text \<open>
  A frame that fails to parse as the expected shape leaves the session as it is and
  does not end the loop, in both copies; in \<^verbatim>\<open>main.go\<close> that is also what the
  switch does with such a frame when it is given the tag the client wrote.
\<close>

lemma malformed_frame_dropped:
  assumes "malformed lib msg"
  shows "handleMessage lib isBroadcaster msg st = st \<and>
    handleSignaling lib isBroadcaster (msg # msgs) st = handleSignaling lib isBroadcaster msgs st \<and>
    handleMessage_min lib msg st = st \<and>
    handleSignaling_min lib isBroadcaster (msg # msgs) st =
      handleSignaling_min lib isBroadcaster msgs st \<and>
    (case unmarshalMap msg of
       None \<Rightarrow> True
     | Some m \<Rightarrow> switchMsgType lib isBroadcaster (frameType m) m st = st)"
proof -
  have "switchMsgType lib isBroadcaster (frameType m) m st = st" if "unmarshalMap msg = Some m" for m
    using assms that switch_payload_guard [of lib m isBroadcaster st]
    by (auto simp: malformed_def)
  then show ?thesis
    by (simp add: handleMessage_id handleMessage_min_id split: option.splits)
qed

lemma malformed_frame_dropped_example:
  "malformed sampleLibrary NotJSON \<and>
   malformed sampleLibrary (Text (JObject [(''type'', JString ''offer''), (''sdp'', JNumber 5)])) \<and>
   handleSignaling sampleLibrary True
     [NotJSON, Text (JObject [(''type'', JString ''candidate''),
        (''candidate'', JObject [(''candidate'', JString ''c'')])])] \<lparr>calls = [], sent = []\<rparr>
   = handleSignaling sampleLibrary True
     [Text (JObject [(''type'', JString ''candidate''),
        (''candidate'', JObject [(''candidate'', JString ''c'')])])] \<lparr>calls = [], sent = []\<rparr>"
proof -
  have m: "malformed sampleLibrary NotJSON"
    by (simp add: malformed_def unmarshalMap_def)
  have m2: "malformed sampleLibrary
      (Text (JObject [(''type'', JString ''offer''), (''sdp'', JNumber 5)]))"
    by (simp add: malformed_def unmarshalMap_def frameType_def sampleLibrary_def)
  show ?thesis using malformed_frame_dropped [OF m] m m2 by simp
qed


section \<open>Facts about the registry and the process state\<close>

lemma hexdigit_inj: "a < 16 \<Longrightarrow> b < 16 \<Longrightarrow> hexdigit a = hexdigit b \<Longrightarrow> a = b"
proof -
  assume a: "a < 16" and b: "b < 16" and e: "hexdigit a = hexdigit b"
  have d: "distinct ''0123456789abcdef''" by simp
  have l: "length ''0123456789abcdef'' = 16" by simp
  from e show "a = b"
    unfolding hexdigit_def using nth_eq_iff_index_eq [OF d, of a b] a b l by simp
qed

lemma encodeByte_inj: "encodeByte a = encodeByte b \<Longrightarrow> a = b"
proof -
  assume e: "encodeByte a = encodeByte b"
  have "unat a < 256" "unat b < 256"
    using unsigned_less [of a, where ?'a = nat] unsigned_less [of b, where ?'a = nat]
    by simp_all
  then have la: "unat a div 16 < 16" "unat b div 16 < 16"
    by simp_all
  have "unat a div 16 = unat b div 16"
    using e la hexdigit_inj unfolding encodeByte_def by simp
  moreover have "unat a mod 16 = unat b mod 16"
    using e hexdigit_inj [of "unat a mod 16" "unat b mod 16"] unfolding encodeByte_def by simp
  ultimately have "unat a = unat b"
    by (metis div_mult_mod_eq)
  then show "a = b" by (simp add: word_unat_eq_iff)
qed

lemma EncodeToString_inj:
  "length xs = length ys \<Longrightarrow> EncodeToString xs = EncodeToString ys \<Longrightarrow> xs = ys"
proof (induction xs ys rule: list_induct2)
  case Nil
  then show ?case by simp
next
  case (Cons x xs y ys)
  from Cons.prems have "encodeByte x @ EncodeToString xs = encodeByte y @ EncodeToString ys"
    by (simp add: EncodeToString_def)
  moreover have "length (encodeByte x) = length (encodeByte y)"
    by (simp add: encodeByte_def)
  ultimately have "encodeByte x = encodeByte y" "EncodeToString xs = EncodeToString ys"
    by simp_all
  then show ?case using Cons.IH encodeByte_inj by simp
qed

lemma length_fill: "length (fill n rnd) = n"
  by (simp add: fill_def)

lemma randomHex_inj: "randomHex n a = randomHex n b \<Longrightarrow> fill n a = fill n b"
  unfolding randomHex_def by (rule EncodeToString_inj) (simp_all add: length_fill)

lemma returned_Create: "returned (map Create rnds) = map (randomHex 6) rnds"
  by (induction rnds) (simp_all add: createRoom_def Let_def)

lemma createRoom_snd: "snd (createRoom rnd s) = insertRoom (randomHex 6 rnd) s"
  by (simp add: createRoom_def Let_def)

text \<open>What each operation leaves alone.\<close>

lemma stateChange_frame:
  "rooms (stateChange pc st s) = rooms s"
  "allocated (stateChange pc st s) = allocated s"
  "forwards (stateChange pc st s) = forwards s"
  "peers (stateChange pc st s) = peers s"
  "closedPeers (stateChange pc st s) = closedPeers s"
  by (simp_all add: stateChange_def onConnectionStateChange_def deleteListener_def
      split: option.splits)

lemma pcClose_frame:
  "rooms (pcClose pc s) = rooms s"
  "allocated (pcClose pc s) = allocated s"
  "forwards (pcClose pc s) = forwards s"
  "peers (pcClose pc s) = peers s"
  "closedPeers (pcClose pc s) = insert pc (closedPeers s)"
  by (simp_all add: pcClose_def stateChange_frame)

lemma joinRoom_begin_frame:
  "rooms (snd (joinRoom_begin r e s)) = rooms s"
  "allocated (snd (joinRoom_begin r e s)) = allocated s"
  "forwards (snd (joinRoom_begin r e s)) = forwards s"
  by (simp_all add: joinRoom_begin_def Let_def pcClose_frame setBroadcaster_def addListener_def
      split: option.splits)

lemma onTrack_frame:
  "rooms (onTrack t room s) = rooms s"
  "allocated (onTrack t room s) = allocated s"
  by (simp_all add: onTrack_def)

lemma step_rooms:
  "rooms (step ev s) =
     (case ev of Create rnd \<Rightarrow> (rooms s)(randomHex 6 rnd \<mapsto> allocated s) | _ \<Rightarrow> rooms s)"
  by (cases ev)
    (simp_all add: createRoom_snd insertRoom_def joinRoom_begin_frame joinRoom_return_def
      pcClose_frame stateChange_frame onTrack_frame split: option.splits)

lemma returned_step:
  "set (returned (ev # evs)) =
     (case ev of Create rnd \<Rightarrow> {randomHex 6 rnd} | _ \<Rightarrow> {}) \<union> set (returned evs)"
  by (cases ev) (simp_all add: createRoom_def Let_def)

text \<open>The registry holds exactly the identifiers that \<^verbatim>\<open>createRoom\<close> returned.\<close>

lemma dom_rooms_run: "dom (rooms (run evs s)) = dom (rooms s) \<union> set (returned evs)"
proof (induction evs arbitrary: s)
  case Nil
  then show ?case by (simp add: run_def)
next
  case (Cons ev evs)
  have "run (ev # evs) s = run evs (step ev s)" by (simp add: run_def)
  moreover have "dom (rooms (step ev s)) =
      dom (rooms s) \<union> (case ev of Create rnd \<Rightarrow> {randomHex 6 rnd} | _ \<Rightarrow> {})"
    unfolding step_rooms by (cases ev) simp_all
  ultimately show ?case using Cons.IH [of "step ev s"] returned_step [of ev evs] by auto
qed

lemma joinRoom_not_found:
  assumes "rooms s roomName = None"
  shows "joinRoom lib \<lparr>urlPath = ''/join/'' @ roomName, queryRole = role\<rparr> e msgs s
     = (HttpError 404 ''Room not found'', s)"
  using assms by (simp add: joinRoom_def joinRoom_begin_def)

lemma registry_ok_initial: "registry_ok initial"
  by (simp add: registry_ok_def initial_def)

lemma registry_ok_insertRoom: "registry_ok s \<Longrightarrow> registry_ok (insertRoom k s)"
  unfolding registry_ok_def insertRoom_def
  by (auto simp: less_Suc_eq split: if_splits)

lemma registry_ok_step: "registry_ok s \<Longrightarrow> registry_ok (step ev s)"
proof (cases ev)
  case (Create rnd)
  assume "registry_ok s"
  then show ?thesis using Create registry_ok_insertRoom by (simp add: createRoom_snd)
next
  case (JoinBegin r e)
  assume "registry_ok s"
  then show ?thesis using JoinBegin by (simp add: registry_ok_def joinRoom_begin_frame)
next
  case (JoinReturn pc)
  assume "registry_ok s"
  then show ?thesis using JoinReturn
    by (simp add: registry_ok_def joinRoom_return_def pcClose_frame)
next
  case (TrackBegins pc t)
  assume "registry_ok s"
  then show ?thesis using TrackBegins
    by (simp add: registry_ok_def onTrack_frame split: option.splits)
next
  case (StateChanges pc st)
  assume "registry_ok s"
  then show ?thesis using StateChanges by (simp add: registry_ok_def stateChange_frame)
qed

lemma registry_ok_run: "registry_ok s \<Longrightarrow> registry_ok (run evs s)"
  by (induction evs arbitrary: s) (simp_all add: run_def registry_ok_step)

lemma insertRoom_replaces:
  assumes "registry_ok s" and "rooms s k = Some old"
  shows "old \<noteq> allocated s \<and> (\<forall>k'. rooms (insertRoom k s) k' \<noteq> Some old) \<and>
         heap (insertRoom k s) old = heap s old"
proof -
  have lt: "old < allocated s" using assms by (auto simp: registry_ok_def)
  have uniq: "\<And>k'. rooms s k' = Some old \<Longrightarrow> k' = k"
    using assms unfolding registry_ok_def by blast
  show ?thesis using lt uniq by (auto simp: insertRoom_def)
qed

text \<open>Only an inbound track starts forwarding tasks, and only for that track.\<close>

lemma step_forwards:
  "(track, l) \<in> forwards (step ev s) \<longleftrightarrow>
     (track, l) \<in> forwards s \<or>
     (\<exists>pc room. ev = TrackBegins pc track \<and> onTrackHandler s pc = Some room \<and>
        l \<in> Listeners (heap s room))"
  by (cases ev)
    (auto simp: createRoom_snd insertRoom_def joinRoom_begin_frame joinRoom_return_def
      pcClose_frame stateChange_frame onTrack_def split: option.splits)

lemma run_forwards:
  assumes "\<forall>pc. TrackBegins pc track \<notin> set evs"
  shows "(track, l) \<in> forwards (run evs s) \<longleftrightarrow> (track, l) \<in> forwards s"
  using assms
proof (induction evs arbitrary: s)
  case Nil
  then show ?case by (simp add: run_def)
next
  case (Cons ev evs)
  have r: "run (ev # evs) s = run evs (step ev s)" by (simp add: run_def)
  have "\<forall>pc. TrackBegins pc track \<notin> set evs" using Cons.prems by simp
  then have "(track, l) \<in> forwards (run evs (step ev s)) \<longleftrightarrow> (track, l) \<in> forwards (step ev s)"
    by (rule Cons.IH)
  moreover have "(track, l) \<in> forwards (step ev s) \<longleftrightarrow> (track, l) \<in> forwards s"
    using Cons.prems by (auto simp: step_forwards)
  ultimately show ?case using r by simp
qed

subsection \<open>Sessions one after the other\<close>

text \<open>
  The statements of a broadcaster's attempt, run without another attempt between
  them, are the broadcaster branch of \<^verbatim>\<open>joinRoom\<close>.
\<close>

lemma attempt_steps_agree:
  assumes "length ''/join/'' \<le> length (urlPath r)"
    and "rooms s (drop (length ''/join/'') (urlPath r)) = Some room"
    and "upgradeOk e" and "peerOk e" and "queryRole r = ''broadcaster''"
  shows "snd (interleave [0, 0, 0]
            [\<lparr>endpoint = peers s, target = room, addOk = transceiverOk e, at = AtCheck\<rparr>]
            (s\<lparr>peers := Suc (peers s)\<rparr>)) = snd (joinRoom_begin r e s)"
  using assms by (simp add: joinRoom_begin_def attempt_step_def Let_def)

text \<open>A broadcaster that joins a room whose slot is taken is refused with the error frame.\<close>

lemma second_broadcaster_refused:
  assumes "length ''/join/'' \<le> length (urlPath r)"
    and "rooms s (drop (length ''/join/'') (urlPath r)) = Some room"
    and "upgradeOk e" and "peerOk e" and "queryRole r = ''broadcaster''"
    and "Broadcaster (heap s room) = Some pc"
  shows "fst (joinRoom lib r e msgs s) = Returned [ErrorFrame ''Room already has a broadcaster''] \<and>
         Broadcaster (heap (snd (joinRoom lib r e msgs s)) room) = Some pc"
  using assms
  by (simp add: joinRoom_def joinRoom_begin_def broadcasterSet_def Let_def pcClose_def
      stateChange_def onConnectionStateChange_def deleteListener_def split: option.splits)

text \<open>
  When a session returns from its loop, a listener's entry is deleted by its
  state handler; nothing resets \<^verbatim>\<open>room.Broadcaster\<close>.
\<close>

lemma listener_entry_removed:
  assumes "joinRoom_begin r e s = (Signaling pc room False, s1)"
  shows "pc \<notin> Listeners (heap (joinRoom_return pc s1) room) \<and>
         pc \<in> closedPeers (joinRoom_return pc s1)"
  using assms
  by (auto simp: joinRoom_begin_def Let_def joinRoom_return_def pcClose_def stateChange_def
      onConnectionStateChange_def deleteListener_def setBroadcaster_def addListener_def
      split: option.splits if_splits)

lemma publisher_slot_kept:
  assumes "joinRoom_begin r e s = (Signaling pc room True, s1)"
  shows "Broadcaster (heap (joinRoom_return pc s1) room) = Some pc \<and>
         pc \<in> closedPeers (joinRoom_return pc s1)"
  using assms
  by (auto simp: joinRoom_begin_def Let_def joinRoom_return_def pcClose_def stateChange_def
      onConnectionStateChange_def deleteListener_def setBroadcaster_def addListener_def
      split: option.splits if_splits)

subsection \<open>The forwarding buffer\<close>

lemma length_copy: "length (copy dst src) = length dst"
  by (simp add: copy_def)

lemma take_copy: "length src \<le> length dst \<Longrightarrow> take (length src) (copy dst src) = src"
  by (simp add: copy_def)

lemma forwardLoop_fits:
  assumes "\<forall>f \<in> set reads. count f = int (length (payload f)) \<and>
             length (payload f) \<le> length rtpBuf"
  shows "forwardLoop reads rtpBuf out =
     (ReadFailed, out @ map (\<lambda>f. \<lparr>Data = payload f, Duration = duration f\<rparr>) reads)"
  using assms
proof (induction reads arbitrary: rtpBuf out)
  case Nil
  then show ?case by simp
next
  case (Cons f fs)
  have f: "count f = int (length (payload f))" "length (payload f) \<le> length rtpBuf"
    using Cons.prems by simp_all
  have rest: "\<forall>g \<in> set fs. count g = int (length (payload g)) \<and>
      length (payload g) \<le> length (copy rtpBuf (payload f))"
    using Cons.prems by (simp add: length_copy)
  show ?case
    using f Cons.IH [OF rest] by (simp add: Let_def length_copy take_copy)
qed

text \<open>
  Frames whose count is the length of their payload, at most 1400, are forwarded
  one for one, payload and duration kept.
\<close>

lemma forwardTrack_fitting_frames:
  assumes "\<forall>f \<in> set reads. count f = int (length (payload f)) \<and> length (payload f) \<le> 1400"
  shows "forwardTrack True True reads =
     (ReadFailed, map (\<lambda>f. \<lparr>Data = payload f, Duration = duration f\<rparr>) reads)"
  using forwardLoop_fits [of reads "replicate 1400 0" "[]"] assms
  by (simp add: forwardTrack_def)

lemma forwardTrack_fitting_frames_example:
  "forwardTrack True True
     [\<lparr>count = 3, payload = [1, 2, 3], duration = 20\<rparr>, \<lparr>count = 1, payload = [9], duration = 10\<rparr>]
   = (ReadFailed, [\<lparr>Data = [1, 2, 3], Duration = 20\<rparr>, \<lparr>Data = [9], Duration = 10\<rparr>])"
  using forwardTrack_fitting_frames
    [of "[\<lparr>count = 3, payload = [1, 2, 3], duration = 20\<rparr>,
          \<lparr>count = 1, payload = [9], duration = 10\<rparr>]"]
  by simp

text \<open>
  When the count is larger than the payload, the sample carries bytes of an
  earlier frame that are still in the buffer.
\<close>

lemma forwardLoop_stale_bytes:
  "snd (forwardLoop [\<lparr>count = 3, payload = [1, 2, 3], duration = 20\<rparr>,
                     \<lparr>count = 3, payload = [9], duration = 10\<rparr>] [0, 0, 0, 0] [])
   = [\<lparr>Data = [1, 2, 3], Duration = 20\<rparr>, \<lparr>Data = [9, 2, 3], Duration = 10\<rparr>]"
  by (simp add: copy_def Let_def)


section \<open>Properties of the specification\<close>

text \<open>
  C1. At most one publisher per room, also under concurrent joins: one broadcaster
  attempt sets the publisher and every other one is refused. The code tests
  \<^verbatim>\<open>room.Broadcaster\<close> outside the lock that guards the assignment. Two attempts on
  a room without a broadcaster, each running its test before either assigns, both
  pass the test, both assign (the second replaces the first) and both enter the
  signaling loop; neither is refused.
\<close>

theorem concurrent_broadcasters_both_attach:
  "map at (fst (interleave [0, 1, 0, 1, 0, 1]
      [\<lparr>endpoint = 0, target = 0, addOk = True, at = AtCheck\<rparr>,
       \<lparr>endpoint = 1, target = 0, addOk = True, at = AtCheck\<rparr>]
      ((snd (createRoom [] initial))\<lparr>peers := 2\<rparr>))) = [InSignaling, InSignaling] \<and>
   Broadcaster (heap (snd (interleave [0, 1, 0, 1, 0]
      [\<lparr>endpoint = 0, target = 0, addOk = True, at = AtCheck\<rparr>,
       \<lparr>endpoint = 1, target = 0, addOk = True, at = AtCheck\<rparr>]
      ((snd (createRoom [] initial))\<lparr>peers := 2\<rparr>))) 0) = Some 0 \<and>
   Broadcaster (heap (snd (interleave [0, 1, 0, 1, 0, 1]
      [\<lparr>endpoint = 0, target = 0, addOk = True, at = AtCheck\<rparr>,
       \<lparr>endpoint = 1, target = 0, addOk = True, at = AtCheck\<rparr>]
      ((snd (createRoom [] initial))\<lparr>peers := 2\<rparr>))) 0) = Some 1"
  by code_simp

text \<open>
  C2. A publisher's session that receives \<^verbatim>\<open>{"type":"offer","sdp":{...}}\<close> sets the
  remote description, creates and sets an answer and sends one answer frame. In
  both copies of the loop the frame is read and nothing follows: no call on the
  endpoint, no frame sent, whatever the endpoint would have answered.
\<close>

theorem offer_frame_gets_no_answer:
  "handleSignaling lib True [Text (JObject [(''type'', JString ''offer''),
        (''sdp'', JObject [(''type'', JString ''offer''), (''sdp'', JString ''v=0'')])])] \<lparr>calls = [], sent = []\<rparr> = \<lparr>calls = [], sent = []\<rparr> \<and>
   handleSignaling_min lib True [Text (JObject [(''type'', JString ''offer''),
        (''sdp'', JObject [(''type'', JString ''offer''), (''sdp'', JString ''v=0'')])])] \<lparr>calls = [], sent = []\<rparr> = \<lparr>calls = [], sent = []\<rparr>"
  by (simp add: handleMessage_def handleMessage_min_def unmarshalMap_def rawString_def
      switchMsgType_def switchMsgType_min_def quoted_def)

text \<open>
  C3. A forwarding task emits one sample for every frame it reads, with the
  frame's payload as data and the frame's duration. On a frame of 1401 payload
  bytes the task copies 1400 of them, the slice expression \<^verbatim>\<open>rtpBuf[:n]\<close> panics
  and no sample is emitted. On a frame whose count is larger than its payload the
  sample ends in bytes of the frame before.
\<close>

theorem forwardTrack_oversize_panics:
  "forwardTrack True True [\<lparr>count = 1401, payload = replicate 1401 7, duration = 20\<rparr>]
     = (SlicePanic, []) \<and>
   snd (forwardTrack True True
     [\<lparr>count = 3, payload = [1, 2, 3], duration = 20\<rparr>,
      \<lparr>count = 3, payload = [9], duration = 10\<rparr>])
     = [\<lparr>Data = [1, 2, 3], Duration = 20\<rparr>, \<lparr>Data = [9, 2, 3], Duration = 10\<rparr>]"
  by (simp add: forwardTrack_def length_copy Let_def) (simp add: copy_def)

text \<open>
  C4. When a session's loop ends, the endpoint is released and the session's
  membership in the room is removed, for either role. For a broadcaster the
  endpoint is closed but stays in \<^verbatim>\<open>room.Broadcaster\<close>: after its session is over,
  the next broadcaster of that room is refused.
\<close>

theorem broadcaster_slot_survives_session:
  "(let s1 = snd (createRoom [] initial);
        req = \<lparr>urlPath = ''/join/000000000000'', queryRole = ''broadcaster''\<rparr>;
        env = \<lparr>upgradeOk = True, peerOk = True, transceiverOk = True\<rparr>;
        first = joinRoom sampleLibrary req env [] s1;
        second = joinRoom sampleLibrary req env [] (snd first)
    in fst first = Returned [] \<and>
       Broadcaster (heap (snd first) 0) = Some 0 \<and>
       0 \<in> closedPeers (snd first) \<and>
       fst second = Returned [ErrorFrame ''Room already has a broadcaster''])"
  by code_simp

text \<open>
  C5. A frame that fails to parse as the expected shape is dropped and the loop
  goes on, so that the valid frames after it are still processed. The loop does
  read on after such a frame, but the valid frames that follow reach nothing: after
  a message that is no JSON text, a publisher's well-formed offer and a well-formed
  candidate leave the session without a call on the endpoint and without an answer,
  in both copies of the loop. Given the tag the client wrote, the switch of
  \<^verbatim>\<open>main.go\<close> would answer that offer.
\<close>

theorem valid_frame_after_malformed_unprocessed:
  "malformed sampleLibrary NotJSON \<and>
   malformed sampleLibrary (Text (JObject [(''type'', JString ''offer''),
        (''sdp'', JObject [(''type'', JString ''offer''), (''sdp'', JString ''v=0'')])])) = False \<and>
   malformed sampleLibrary (Text (JObject [(''type'', JString ''candidate''),
        (''candidate'', JObject [(''candidate'', JString ''c'')])])) = False \<and>
   handleSignaling sampleLibrary True
     [NotJSON,
      Text (JObject [(''type'', JString ''offer''),
        (''sdp'', JObject [(''type'', JString ''offer''), (''sdp'', JString ''v=0'')])]),
      Text (JObject [(''type'', JString ''candidate''),
        (''candidate'', JObject [(''candidate'', JString ''c'')])])]
     \<lparr>calls = [], sent = []\<rparr> = \<lparr>calls = [], sent = []\<rparr> \<and>
   handleSignaling_min sampleLibrary True
     [NotJSON,
      Text (JObject [(''type'', JString ''offer''),
        (''sdp'', JObject [(''type'', JString ''offer''), (''sdp'', JString ''v=0'')])])]
     \<lparr>calls = [], sent = []\<rparr> = \<lparr>calls = [], sent = []\<rparr> \<and>
   switchMsgType sampleLibrary True ''offer''
     (map_of (rev [(''type'', JString ''offer''),
        (''sdp'', JObject [(''type'', JString ''offer''), (''sdp'', JString ''v=0'')])]))
     \<lparr>calls = [], sent = []\<rparr>
   = \<lparr>calls = [SetRemoteDescription \<lparr>sdType = ''offer'', sdSDP = ''v=0''\<rparr>, CreateAnswer,
               SetLocalDescription \<lparr>sdType = ''answer'', sdSDP = ''v=0''\<rparr>],
      sent = [AnswerFrame \<lparr>sdType = ''answer'', sdSDP = ''v=0''\<rparr>]\<rparr>"
  by code_simp

text \<open>
  C6. A frame of the other role (an offer on a subscriber's session, an answer on a
  publisher's) is ignored: no call on the endpoint, nothing sent, and the loop goes
  on. This holds in both copies of the loop. In \<^verbatim>\<open>main.go\<close> it is also what the
  switch does with such a frame when it is given the tag the client wrote.
\<close>

theorem role_inapplicable_frame_ignored:
  assumes "unmarshalMap msg = Some m"
    and "frameType m = ''offer'' \<and> isBroadcaster = False \<or>
         frameType m = ''answer'' \<and> isBroadcaster = True"
  shows "handleMessage lib isBroadcaster msg st = st \<and>
    handleSignaling lib isBroadcaster (msg # msgs) st = handleSignaling lib isBroadcaster msgs st \<and>
    handleMessage_min lib msg st = st \<and>
    handleSignaling_min lib isBroadcaster (msg # msgs) st =
      handleSignaling_min lib isBroadcaster msgs st \<and>
    switchMsgType lib isBroadcaster (frameType m) m st = st"
  using assms(2) switch_role_guard [of lib m st]
  by (auto simp: handleMessage_id handleMessage_min_id)

theorem role_inapplicable_frame_ignored_witness:
  "handleSignaling sampleLibrary False [Text (JObject [(''type'', JString ''offer''),
        (''sdp'', JObject [(''type'', JString ''offer''), (''sdp'', JString ''v=0'')])])] \<lparr>calls = [], sent = []\<rparr>
     = \<lparr>calls = [], sent = []\<rparr>"
proof -
  have "unmarshalMap (Text (JObject [(''type'', JString ''offer''),
        (''sdp'', JObject [(''type'', JString ''offer''), (''sdp'', JString ''v=0'')])]))
     = Some (map_of (rev [(''type'', JString ''offer''),
        (''sdp'', JObject [(''type'', JString ''offer''), (''sdp'', JString ''v=0'')])]))"
    by (simp add: unmarshalMap_def)
  moreover have "frameType (map_of (rev [(''type'', JString ''offer''),
        (''sdp'', JObject [(''type'', JString ''offer''), (''sdp'', JString ''v=0'')])])) = ''offer''"
    by (simp add: frameType_def)
  ultimately show ?thesis
    using role_inapplicable_frame_ignored [of "Text (JObject [(''type'', JString ''offer''),
        (''sdp'', JObject [(''type'', JString ''offer''), (''sdp'', JString ''v=0'')])])"
        _ False sampleLibrary "\<lparr>calls = [], sent = []\<rparr>" "[]"]
    by simp
qed

text \<open>
  C7. A join request for a room identifier that the registry does not hold is
  answered with status 404 and the text \<^verbatim>\<open>Room not found\<close>; there is no upgrade and
  the state is as before. An identifier that no \<^verbatim>\<open>/create\<close> request of the
  process's history returned is not in the registry.
\<close>

theorem join_unknown_room_rejected:
  "(rooms s roomName = None \<longrightarrow>
      joinRoom lib \<lparr>urlPath = ''/join/'' @ roomName, queryRole = role\<rparr> e msgs s
        = (HttpError 404 ''Room not found'', s)) \<and>
   (roomName \<notin> set (returned evs) \<longrightarrow>
      joinRoom lib \<lparr>urlPath = ''/join/'' @ roomName, queryRole = role\<rparr> e msgs (run evs initial)
        = (HttpError 404 ''Room not found'', run evs initial))"
proof -
  have "roomName \<notin> set (returned evs) \<Longrightarrow> rooms (run evs initial) roomName = None"
    using dom_rooms_run [of evs initial] by (auto simp: initial_def)
  then show ?thesis using joinRoom_not_found by blast
qed

theorem join_unknown_room_rejected_witness:
  "joinRoom sampleLibrary \<lparr>urlPath = ''/join/nosuchroom'', queryRole = ''listener''\<rparr>
      \<lparr>upgradeOk = True, peerOk = True, transceiverOk = True\<rparr> [] (run [Create []] initial)
    = (HttpError 404 ''Room not found'', run [Create []] initial)"
proof -
  have "''nosuchroom'' \<notin> set (returned [Create []])"
    by code_simp
  then show ?thesis
    using join_unknown_room_rejected [of "run [Create []] initial" "''nosuchroom''"
        sampleLibrary "''listener''" "\<lparr>upgradeOk = True, peerOk = True, transceiverOk = True\<rparr>" "[]" "[Create []]"]
    by simp
qed

text \<open>
  C8, as amended. \<^verbatim>\<open>createRoom\<close> always answers: it encodes the bytes of its random
  source (six bytes as twelve hexadecimal digits; in the second copy the first five
  digits of five bytes), stores an empty Room under that identifier and returns the
  identifier and the join URL. The identifiers that a sequence of calls of
  \<^verbatim>\<open>main.go\<close> returns are pairwise distinct when the six-byte draws of the calls
  are.
\<close>

theorem createRoom_inserts_and_distinct_draws:
  "createRoom rnd s =
     (\<lparr>respRoom = randomHex 6 rnd, respUrl = ''https://your-app.fly.dev/r/'' @ randomHex 6 rnd\<rparr>,
      insertRoom (randomHex 6 rnd) s) \<and>
   createRoom_min rnd s =
     (\<lparr>respRoom = randomHex_min 5 rnd,
       respUrl = ''https://your-app.fly.dev/r/'' @ randomHex_min 5 rnd\<rparr>,
      insertRoom (randomHex_min 5 rnd) s) \<and>
   rooms (insertRoom roomID s) roomID = Some (allocated s) \<and>
   heap (insertRoom roomID s) (allocated s) =
     \<lparr>Name = roomID, Broadcaster = None, Listeners = {}\<rparr> \<and>
   (distinct (map (fill 6) rnds) \<longrightarrow> distinct (returned (map Create rnds)))"
proof -
  have "inj_on (randomHex 6) (set rnds)" if "distinct (map (fill 6) rnds)"
  proof (rule inj_onI)
    fix a b assume ab: "a \<in> set rnds" "b \<in> set rnds" "randomHex 6 a = randomHex 6 b"
    have "inj_on (fill 6) (set rnds)" using that by (simp add: distinct_map)
    then show "a = b" using ab randomHex_inj [of 6 a b] by (auto dest: inj_onD)
  qed
  moreover have "distinct rnds" if "distinct (map (fill 6) rnds)"
    using that by (simp add: distinct_map)
  ultimately have "distinct (map (fill 6) rnds) \<longrightarrow> distinct (map (randomHex 6) rnds)"
    by (simp add: distinct_map)
  then show ?thesis
    by (simp add: createRoom_def createRoom_min_def Let_def insertRoom_def newRoom_def
        returned_Create)
qed

theorem createRoom_inserts_and_distinct_draws_witness:
  "distinct (returned (map Create [[1, 2, 3, 4, 5, 6], [1, 2, 3, 4, 5, 7]]))"
proof -
  have "distinct (map (fill 6) [[1, 2, 3, 4, 5, 6], [1, 2, 3, 4, 5, 7 :: 8 word]])"
    by code_simp
  then show ?thesis
    using createRoom_inserts_and_distinct_draws [of _ _ _ "[[1, 2, 3, 4, 5, 6], [1, 2, 3, 4, 5, 7]]"]
    by blast
qed

text \<open>
  C8 as stated fails: two calls whose random source delivers the same six bytes
  return the same identifier; in the second copy so do two calls whose draws differ
  in the fifth byte only.
\<close>

theorem createRoom_equal_draws_counterexample:
  "\<not> distinct (returned [Create [1, 2, 3, 4, 5, 6], Create [1, 2, 3, 4, 5, 6]]) \<and>
   respRoom (fst (createRoom_min [0, 0, 0, 0, 0] initial)) =
     respRoom (fst (createRoom_min [0, 0, 0, 0, 1] (snd (createRoom_min [0, 0, 0, 0, 0] initial))))"
  by code_simp

text \<open>
  C9. The listeners that get a forwarding task for a track are those in the room
  when the track begins. Whatever happens afterwards, short of the same track
  beginning again, the tasks of that track stay the same: an endpoint that was not
  a listener of the room then, and had no task for the track, never gets one.
\<close>

theorem late_listener_gets_no_forward:
  assumes "\<forall>pc. TrackBegins pc track \<notin> set evs"
  shows "((track, l) \<in> forwards (run evs (onTrack track room s)) \<longleftrightarrow>
            (track, l) \<in> forwards s \<or> l \<in> Listeners (heap s room)) \<and>
         (l \<notin> Listeners (heap s room) \<and> (track, l) \<notin> forwards s \<longrightarrow>
            (track, l) \<notin> forwards (run evs (onTrack track room s)))"
  using run_forwards [OF assms, of l "onTrack track room s"] by (auto simp: onTrack_def)

theorem late_listener_gets_no_forward_witness:
  "(7, 2) \<notin> forwards (run [JoinBegin \<lparr>urlPath = ''/join/000000000000'', queryRole = ''listener''\<rparr> \<lparr>upgradeOk = True, peerOk = True, transceiverOk = True\<rparr>] (onTrack 7 0 (run [Create [], JoinBegin \<lparr>urlPath = ''/join/000000000000'', queryRole = ''listener''\<rparr> \<lparr>upgradeOk = True, peerOk = True, transceiverOk = True\<rparr>, JoinBegin \<lparr>urlPath = ''/join/000000000000'', queryRole = ''broadcaster''\<rparr> \<lparr>upgradeOk = True, peerOk = True, transceiverOk = True\<rparr>] initial))) \<and>
   (7, 0) \<in> forwards (run [JoinBegin \<lparr>urlPath = ''/join/000000000000'', queryRole = ''listener''\<rparr> \<lparr>upgradeOk = True, peerOk = True, transceiverOk = True\<rparr>] (onTrack 7 0 (run [Create [], JoinBegin \<lparr>urlPath = ''/join/000000000000'', queryRole = ''listener''\<rparr> \<lparr>upgradeOk = True, peerOk = True, transceiverOk = True\<rparr>, JoinBegin \<lparr>urlPath = ''/join/000000000000'', queryRole = ''broadcaster''\<rparr> \<lparr>upgradeOk = True, peerOk = True, transceiverOk = True\<rparr>] initial))) \<and>
   2 \<in> Listeners (heap (run [JoinBegin \<lparr>urlPath = ''/join/000000000000'', queryRole = ''listener''\<rparr> \<lparr>upgradeOk = True, peerOk = True, transceiverOk = True\<rparr>] (onTrack 7 0 (run [Create [], JoinBegin \<lparr>urlPath = ''/join/000000000000'', queryRole = ''listener''\<rparr> \<lparr>upgradeOk = True, peerOk = True, transceiverOk = True\<rparr>, JoinBegin \<lparr>urlPath = ''/join/000000000000'', queryRole = ''broadcaster''\<rparr> \<lparr>upgradeOk = True, peerOk = True, transceiverOk = True\<rparr>] initial))) 0)"
proof -
  let ?s = "run [Create [], JoinBegin \<lparr>urlPath = ''/join/000000000000'', queryRole = ''listener''\<rparr> \<lparr>upgradeOk = True, peerOk = True, transceiverOk = True\<rparr>, JoinBegin \<lparr>urlPath = ''/join/000000000000'', queryRole = ''broadcaster''\<rparr> \<lparr>upgradeOk = True, peerOk = True, transceiverOk = True\<rparr>] initial"
  let ?evs = "[JoinBegin \<lparr>urlPath = ''/join/000000000000'', queryRole = ''listener''\<rparr> \<lparr>upgradeOk = True, peerOk = True, transceiverOk = True\<rparr>]"
  have h: "\<forall>pc. TrackBegins pc 7 \<notin> set ?evs" by simp
  have a: "2 \<notin> Listeners (heap ?s 0)" by code_simp
  have b: "(7, 2) \<notin> forwards ?s" by code_simp
  have c: "2 \<in> Listeners (heap (run ?evs (onTrack 7 0 ?s)) 0)" by code_simp
  have d: "0 \<in> Listeners (heap ?s 0)" by code_simp
  show ?thesis
    using late_listener_gets_no_forward [OF h, of 2 0 ?s]
      late_listener_gets_no_forward [OF h, of 0 0 ?s] a b c d by blast
qed

text \<open>
  C10. After \<^verbatim>\<open>createRoom\<close> the registry maps the returned identifier to a new,
  empty Room, also when the identifier was mapped before: the Room it was mapped to
  is then under no identifier of the registry any more, while the Room itself, with
  its broadcaster and listeners, is unchanged. This holds in both copies.
\<close>

theorem createRoom_replaces_on_collision:
  "rooms (snd (createRoom rnd s)) (respRoom (fst (createRoom rnd s))) = Some (allocated s) \<and>
   heap (snd (createRoom rnd s)) (allocated s) = newRoom (respRoom (fst (createRoom rnd s))) \<and>
   (registry_ok s \<and> rooms s (respRoom (fst (createRoom rnd s))) = Some old \<longrightarrow>
      old \<noteq> allocated s \<and> (\<forall>k. rooms (snd (createRoom rnd s)) k \<noteq> Some old) \<and>
      heap (snd (createRoom rnd s)) old = heap s old) \<and>
   rooms (snd (createRoom_min rnd s)) (respRoom (fst (createRoom_min rnd s))) = Some (allocated s) \<and>
   heap (snd (createRoom_min rnd s)) (allocated s) =
     newRoom (respRoom (fst (createRoom_min rnd s))) \<and>
   (registry_ok s \<and> rooms s (respRoom (fst (createRoom_min rnd s))) = Some old \<longrightarrow>
      old \<noteq> allocated s \<and> (\<forall>k. rooms (snd (createRoom_min rnd s)) k \<noteq> Some old) \<and>
      heap (snd (createRoom_min rnd s)) old = heap s old)"
proof -
  have a: "snd (createRoom rnd s) = insertRoom (randomHex 6 rnd) s"
    "respRoom (fst (createRoom rnd s)) = randomHex 6 rnd"
    by (simp_all add: createRoom_def Let_def)
  have b: "snd (createRoom_min rnd s) = insertRoom (randomHex_min 5 rnd) s"
    "respRoom (fst (createRoom_min rnd s)) = randomHex_min 5 rnd"
    by (simp_all add: createRoom_min_def Let_def)
  have c: "\<And>k. rooms (insertRoom k s) k = Some (allocated s) \<and>
      heap (insertRoom k s) (allocated s) = newRoom k"
    by (simp add: insertRoom_def)
  show ?thesis unfolding a b using c insertRoom_replaces [of s] by blast
qed

theorem createRoom_replaces_on_collision_witness:
  "rooms (snd (createRoom [] (run [Create [], JoinBegin \<lparr>urlPath = ''/join/000000000000'', queryRole = ''broadcaster''\<rparr> \<lparr>upgradeOk = True, peerOk = True, transceiverOk = True\<rparr>] initial))) ''000000000000'' = Some 1 \<and>
   (\<forall>k. rooms (snd (createRoom [] (run [Create [], JoinBegin \<lparr>urlPath = ''/join/000000000000'', queryRole = ''broadcaster''\<rparr> \<lparr>upgradeOk = True, peerOk = True, transceiverOk = True\<rparr>] initial))) k \<noteq> Some 0) \<and>
   Broadcaster (heap (snd (createRoom [] (run [Create [], JoinBegin \<lparr>urlPath = ''/join/000000000000'', queryRole = ''broadcaster''\<rparr> \<lparr>upgradeOk = True, peerOk = True, transceiverOk = True\<rparr>] initial))) 0) = Some 0 \<and>
   Broadcaster (heap (snd (createRoom [] (run [Create [], JoinBegin \<lparr>urlPath = ''/join/000000000000'', queryRole = ''broadcaster''\<rparr> \<lparr>upgradeOk = True, peerOk = True, transceiverOk = True\<rparr>] initial))) 1) = None"
proof -
  let ?s = "run [Create [], JoinBegin \<lparr>urlPath = ''/join/000000000000'', queryRole = ''broadcaster''\<rparr> \<lparr>upgradeOk = True, peerOk = True, transceiverOk = True\<rparr>] initial"
  have ok: "registry_ok ?s" by (rule registry_ok_run [OF registry_ok_initial])
  have id: "respRoom (fst (createRoom [] ?s)) = ''000000000000''" by code_simp
  have old: "rooms ?s ''000000000000'' = Some 0" by code_simp
  have al: "allocated ?s = 1" by code_simp
  have b: "Broadcaster (heap ?s 0) = Some 0" by code_simp
  show ?thesis
    using createRoom_replaces_on_collision [of "[]" ?s 0] ok id old al b by (simp add: newRoom_def)
qed

end
